theory Spec2Isabelle
  imports Complex_Main "HOL-Library.Sublist"
begin

section \<open>Audio frame accumulator\<close>

text \<open>
  The class \<^verbatim>\<open>WhisperAudioProcessor\<close> of the audio worklet. Its two fields are set by
  the constructor; \<^verbatim>\<open>buffer\<close> is a JavaScript array used as a FIFO of samples. The
  accumulator never inspects a sample, so the sample type is a parameter.
\<close>

record 'a WhisperAudioProcessor =
  buffer :: "'a list"
  chunkSize :: nat

text \<open>
  The argument \<^verbatim>\<open>inputs\<close> of \<^verbatim>\<open>process\<close>: an array of inputs, each an array of
  channels, each channel a \<^verbatim>\<open>Float32Array\<close> of samples or absent.
\<close>

type_synonym 'a channel = "'a list option"
type_synonym 'a audio_input = "'a channel list"

text \<open>The message \<^verbatim>\<open>{ type: 'audio', data: audioChunk }\<close> posted to the main thread.\<close>

datatype 'a port_message = Audio "'a list"

definition constructor :: "'a WhisperAudioProcessor" where
  "constructor = \<lparr>buffer = [], chunkSize = 1600\<rparr>"

text \<open>The handler \<^verbatim>\<open>this.port.onmessage\<close> installed by the constructor.\<close>

definition onmessage :: "string \<Rightarrow> 'a WhisperAudioProcessor \<Rightarrow> 'a WhisperAudioProcessor" where
  "onmessage command p = (if command = ''clear'' then p\<lparr>buffer := []\<rparr> else p)"

text \<open>The loop \<^verbatim>\<open>for (i = 0; i < inputChannel.length; i++) this.buffer.push(inputChannel[i])\<close>.\<close>

fun push_samples :: "'a list \<Rightarrow> 'a list \<Rightarrow> 'a list" where
  "push_samples buf [] = buf"
| "push_samples buf (x # xs) = push_samples (buf @ [x]) xs"

text \<open>
  \<^verbatim>\<open>array.splice(0, n)\<close>: the removed elements (the first \<open>n\<close>, or all of them when there
  are fewer) and the array that is left.
\<close>

definition splice0 :: "nat \<Rightarrow> 'a list \<Rightarrow> 'a list \<times> 'a list" where
  "splice0 n xs = (take n xs, drop n xs)"

text \<open>
  \<^verbatim>\<open>process(inputs, outputs, parameters)\<close>: the new state of the processor, the messages
  posted during the call, and the returned flag (\<open>True\<close> keeps the processor alive).
\<close>

definition process ::
  "'a audio_input list \<Rightarrow> 'a WhisperAudioProcessor \<Rightarrow>
     'a WhisperAudioProcessor \<times> 'a port_message list \<times> bool" where
  "process inputs p =
     (case inputs of
        [] \<Rightarrow> (p, [], True)
      | input # _ \<Rightarrow>
          (case input of
             [] \<Rightarrow> (p, [], True)
           | inputChannel # _ \<Rightarrow>
               (case inputChannel of
                  None \<Rightarrow> (p, [], True)
                | Some samples \<Rightarrow>
                    (let buf = push_samples (buffer p) samples in
                     if length buf \<ge> chunkSize p
                     then (let (audioChunk, rest) = splice0 (chunkSize p) buf
                           in (p\<lparr>buffer := rest\<rparr>, [Audio audioChunk], True))
                     else (p\<lparr>buffer := buf\<rparr>, [], True)))))"

text \<open>
  The copy of the class that \<^verbatim>\<open>useAudioCapture\<close> loads into the worklet: the same
  fields and two more for its debug output, a counter of the frames seen and the period
  of the log lines. The log lines themselves write to the console only.
\<close>

record 'a WhisperAudioProcessorInline = "'a WhisperAudioProcessor" +
  sampleCount :: nat
  debugInterval :: nat

definition constructor_inline :: "'a WhisperAudioProcessorInline" where
  "constructor_inline = \<lparr>buffer = [], chunkSize = 1600, sampleCount = 0, debugInterval = 50\<rparr>"

definition process_inline ::
  "'a audio_input list \<Rightarrow> 'a WhisperAudioProcessorInline \<Rightarrow>
     'a WhisperAudioProcessorInline \<times> 'a port_message list \<times> bool" where
  "process_inline inputs p =
     (case inputs of
        [] \<Rightarrow> (p, [], True)
      | input # _ \<Rightarrow>
          (case input of
             [] \<Rightarrow> (p, [], True)
           | inputChannel # _ \<Rightarrow>
               (case inputChannel of
                  None \<Rightarrow> (p, [], True)
                | Some samples \<Rightarrow>
                    (let p1 = p\<lparr>sampleCount := sampleCount p + 1\<rparr>;
                         buf = push_samples (buffer p1) samples in
                     if length buf \<ge> chunkSize p1
                     then (let (audioChunk, rest) = splice0 (chunkSize p1) buf
                           in (p1\<lparr>buffer := rest\<rparr>, [Audio audioChunk], True))
                     else (p1\<lparr>buffer := buf\<rparr>, [], True)))))"

text \<open>A mono frame as the browser delivers it: one input with one channel.\<close>

definition frame :: "'a list \<Rightarrow> 'a audio_input list" where
  "frame samples = [[Some samples]]"

text \<open>Successive calls of \<^verbatim>\<open>process\<close>, collecting the posted messages in order.\<close>

fun feed ::
  "'a audio_input list list \<Rightarrow> 'a WhisperAudioProcessor \<Rightarrow>
     'a WhisperAudioProcessor \<times> 'a port_message list" where
  "feed [] p = (p, [])"
| "feed (inputs # rest) p =
     (case process inputs p of
        (p', msgs, _) \<Rightarrow> (case feed rest p' of (p'', msgs') \<Rightarrow> (p'', msgs @ msgs')))"

fun chunk_of :: "'a port_message \<Rightarrow> 'a list" where
  "chunk_of (Audio c) = c"

text \<open>
  The hook \<^verbatim>\<open>useAudioCapture\<close> keeps the chunks it received in \<^verbatim>\<open>audioChunksRef\<close> and
  holds the worklet node, through whose port it reaches the processor; the node is absent
  until a recording has started. \<^verbatim>\<open>clearChunks\<close> empties the list and, when there is a
  node, posts \<^verbatim>\<open>{ command: 'clear' }\<close> to it.
\<close>

record 'a capture =
  audioChunksRef :: "'a list list"
  workletNodeRef :: "'a WhisperAudioProcessor option"

definition clearChunks :: "'a capture \<Rightarrow> 'a capture" where
  "clearChunks c =
     c\<lparr>audioChunksRef := [],
       workletNodeRef :=
         (case workletNodeRef c of
            None \<Rightarrow> None
          | Some node \<Rightarrow> Some (onmessage ''clear'' node))\<rparr>"

section \<open>JavaScript strings\<close>

text \<open>
  Strings are lists of code units; the model's \<^typ>\<open>char\<close> covers the code units
  \<open>0\<close> to \<open>255\<close>, among which JavaScript's white space and line terminators are
  tab, line feed, vertical tab, form feed, carriage return, space and no-break space.
\<close>

definition is_whitespace :: "char \<Rightarrow> bool" where
  "is_whitespace c = (of_char c \<in> set [9, 10, 11, 12, 13, 32, 160 :: nat])"

text \<open>\<^verbatim>\<open>String.prototype.trim\<close>.\<close>

definition trim :: "string \<Rightarrow> string" where
  "trim s = rev (dropWhile is_whitespace (rev (dropWhile is_whitespace s)))"

text \<open>\<^verbatim>\<open>Array.prototype.join\<close> on an array of strings.\<close>

fun join :: "string \<Rightarrow> string list \<Rightarrow> string" where
  "join sep [] = []"
| "join sep [x] = x"
| "join sep (x # y # ys) = x @ sep @ join sep (y # ys)"

text \<open>
  Truthiness of a value that is a string, \<^verbatim>\<open>null\<close> or \<^verbatim>\<open>undefined\<close>: the empty string
  is falsy as well.
\<close>

definition truthy :: "string option \<Rightarrow> bool" where
  "truthy v = (case v of None \<Rightarrow> False | Some s \<Rightarrow> s \<noteq> [])"

section \<open>Streaming session client\<close>

text \<open>A segment \<^verbatim>\<open>{ text, timestamp: [start, end] }\<close> of a poll response.\<close>

record segment =
  text_seg :: string
  timestamp :: "real \<times> real"

text \<open>
  The bodies of the responses that the client reads: \<^verbatim>\<open>{ session_id }\<close> of a create call
  and \<^verbatim>\<open>{ committed, uncommitted }\<close> of a process call, each field possibly absent.
\<close>

record create_data =
  session_id :: "string option"

record process_data =
  committed :: "segment list option"
  uncommitted :: "segment list option"

text \<open>
  What awaiting a \<^verbatim>\<open>fetch\<close> gives: the promise rejects with an error message, or a
  response arrives with its \<^verbatim>\<open>ok\<close> flag and a body whose parsing by
  \<^verbatim>\<open>response.json()\<close> throws (\<open>Inl\<close>, with the message) or yields the data.
\<close>

datatype 'a fetch_result =
    Rejected string
  | Response bool "string + 'a"

text \<open>The requests sent to the backend, logged in the order they are issued.\<close>

datatype request =
    CreateRequest string
  | AddChunkRequest string string
  | ProcessRequest string
  | EndRequest string

text \<open>
  The document handed to \<^verbatim>\<open>client.save\<close>. Its \<^verbatim>\<open>_type\<close> is the constant doctype of
  transcriptions, the same for every record, and is left out.
\<close>

record transcription =
  text_doc :: string
  language_doc :: string
  createdAt :: string
  wordCount :: nat


text \<open>
  The state of the component \<^verbatim>\<open>WhisperTranscription\<close>: its own state variables and the
  interval handle, the two state variables of \<^verbatim>\<open>useAudioCapture\<close> it reads
  (\<open>isRecording\<close>, and that hook's \<open>error\<close> as \<open>audioError\<close>), and the two
  collaborators it writes to: the backend (the log of requests) and the document store
  (the documents saved).
\<close>

record app =
  sessionId :: "string option"
  committedSegments :: "segment list"
  uncommittedSegments :: "segment list"
  isProcessing :: bool
  error :: "string option"
  language :: string
  copied :: bool
  shouldSave :: bool
  intervalRef :: "nat option"
  isRecording :: bool
  audioError :: "string option"
  requests :: "request list"
  documents :: "transcription list"

definition send :: "request \<Rightarrow> app \<Rightarrow> app" where
  "send rq s = s\<lparr>requests := requests s @ [rq]\<rparr>"

definition createSession :: "create_data fetch_result \<Rightarrow> app \<Rightarrow> app \<times> string option" where
  "createSession r s =
     (let s1 = send (CreateRequest (language s)) (s\<lparr>error := None\<rparr>) in
      case r of
        Rejected msg \<Rightarrow> (s1\<lparr>error := Some msg\<rparr>, None)
      | Response ok body \<Rightarrow>
          if \<not> ok then (s1\<lparr>error := Some ''Failed to create session''\<rparr>, None)
          else (case body of
                  Inl msg \<Rightarrow> (s1\<lparr>error := Some msg\<rparr>, None)
                | Inr data \<Rightarrow> (s1\<lparr>sessionId := session_id data\<rparr>, session_id data)))"

definition processSession :: "process_data fetch_result \<Rightarrow> app \<Rightarrow> app" where
  "processSession r s =
     (case sessionId s of
        None \<Rightarrow> s
      | Some sid \<Rightarrow>
          if sid = [] then s
          else
            (let s1 = send (ProcessRequest sid) (s\<lparr>isProcessing := True\<rparr>) in
             case r of
               Rejected msg \<Rightarrow> s1\<lparr>error := Some msg, isProcessing := False\<rparr>
             | Response ok body \<Rightarrow>
                 if \<not> ok
                 then s1\<lparr>error := Some ''Failed to process session'', isProcessing := False\<rparr>
                 else (case body of
                         Inl msg \<Rightarrow> s1\<lparr>error := Some msg, isProcessing := False\<rparr>
                       | Inr data \<Rightarrow>
                           (let s2 = (case committed data of
                                        None \<Rightarrow> s1
                                      | Some c \<Rightarrow>
                                          if length c > 0 then s1\<lparr>committedSegments := c\<rparr>
                                          else s1);
                                s3 = (case uncommitted data of
                                        Some u \<Rightarrow> s2\<lparr>uncommittedSegments := u\<rparr>
                                      | None \<Rightarrow> s2\<lparr>uncommittedSegments := []\<rparr>)
                            in s3\<lparr>isProcessing := False\<rparr>))))"

text \<open>
  \<^verbatim>\<open>endSession\<close>: the final \<^verbatim>\<open>processSession\<close> handles its own failures, so only the
  end request can reach the \<^verbatim>\<open>catch\<close>; its response is not inspected.
\<close>

definition endSession :: "process_data fetch_result \<Rightarrow> unit fetch_result \<Rightarrow> app \<Rightarrow> app" where
  "endSession pr er s =
     (case sessionId s of
        None \<Rightarrow> s
      | Some sid \<Rightarrow>
          if sid = [] then s
          else
            (let s1 = send (EndRequest sid) (processSession pr s) in
             case er of
               Rejected msg \<Rightarrow> s1\<lparr>error := Some msg\<rparr>
             | Response ok body \<Rightarrow> s1\<lparr>sessionId := None\<rparr>))"

text \<open>
  The callback \<^verbatim>\<open>sendChunk\<close> that \<^verbatim>\<open>handleStartRecording\<close> builds around the fresh
  session identifier; the hook calls it with every chunk, base64-encoded.
\<close>

definition sendChunk :: "string \<Rightarrow> string \<Rightarrow> unit fetch_result \<Rightarrow> app \<Rightarrow> app" where
  "sendChunk newSessionId audioBase64 r s =
     (let s1 = send (AddChunkRequest newSessionId audioBase64) s in
      case r of
        Rejected msg \<Rightarrow> s1\<lparr>error := Some msg\<rparr>
      | Response ok body \<Rightarrow>
          if \<not> ok then s1\<lparr>error := Some ''Failed to send audio chunk''\<rparr> else s1)"

text \<open>
  \<^verbatim>\<open>startRecording\<close> and \<^verbatim>\<open>stopRecording\<close> of the hook, as far as the component sees
  them: the argument is the message of the exception caught inside, if any.
\<close>

definition startRecording :: "string option \<Rightarrow> app \<Rightarrow> app" where
  "startRecording failure s =
     (let s1 = s\<lparr>audioError := None\<rparr> in
      case failure of
        None \<Rightarrow> s1\<lparr>isRecording := True\<rparr>
      | Some msg \<Rightarrow> s1\<lparr>audioError := Some msg\<rparr>)"


definition handleStartRecording ::
  "create_data fetch_result \<Rightarrow> string option \<Rightarrow> app \<Rightarrow> app" where
  "handleStartRecording cr failure s =
     (let s1 = s\<lparr>error := None, committedSegments := [], uncommittedSegments := [],
                 shouldSave := False, intervalRef := None\<rparr>
      in case createSession cr s1 of
           (s2, newSessionId) \<Rightarrow>
             if \<not> truthy newSessionId then s2 else startRecording failure s2)"


definition getTranscriptionText :: "app \<Rightarrow> string" where
  "getTranscriptionText s = join '' '' (map text_seg (committedSegments s))"

text \<open>The effect that starts the one-second polling timer.\<close>

definition pollingEffect :: "nat \<Rightarrow> app \<Rightarrow> app" where
  "pollingEffect timer s =
     (if \<not> isRecording s \<or> \<not> truthy (sessionId s) then s
      else s\<lparr>intervalRef := Some timer\<rparr>)"

text \<open>
  The effect that saves the transcription. React runs it after a render in which one of
  its dependencies changed: the flag, the session identifier, the committed list or the
  language. \<open>now\<close> is \<^verbatim>\<open>new Date().toISOString()\<close>.

  \<^verbatim>\<open>saveTranscription\<close> is asynchronous. With a text that is not blank it calls
  \<^verbatim>\<open>client.save\<close> with the document and waits for the answer: up to there the state is
  untouched, and the document handed over is returned. With a blank text there is nothing
  to wait for and the flag is cleared at once.
\<close>

definition saveTranscription :: "string \<Rightarrow> app \<Rightarrow> app \<times> transcription option" where
  "saveTranscription now s =
     (let txt = join '' '' (map text_seg (committedSegments s)) in
      if txt \<noteq> [] \<and> trim txt \<noteq> []
      then (s, Some \<lparr>text_doc = txt, language_doc = language s, createdAt = now,
                     wordCount = length (committedSegments s)\<rparr>)
      else (s\<lparr>shouldSave := False\<rparr>, None))"


definition saveEffect :: "string \<Rightarrow> app \<Rightarrow> app \<times> transcription option" where
  "saveEffect now s =
     (if \<not> shouldSave s \<or> truthy (sessionId s) then (s, None) else saveTranscription now s)"



text \<open>A run of successful polls, one response after the other.\<close>

fun polls :: "process_data list \<Rightarrow> app \<Rightarrow> app" where
  "polls [] s = s"
| "polls (d # ds) s = polls ds (processSession (Response True (Inr d)) s)"

text \<open>The state of the component when it is mounted: the initial values of its hooks.\<close>

definition initial :: app where
  "initial =
     \<lparr>sessionId = None, committedSegments = [], uncommittedSegments = [],
      isProcessing = False, error = None, language = ''fr'', copied = False,
      shouldSave = False, intervalRef = None, isRecording = False, audioError = None,
      requests = [], documents = []\<rparr>"

text \<open>The committed list of a response, read as empty when the field is absent.\<close>

definition committed_of :: "process_data \<Rightarrow> segment list" where
  "committed_of d = (case committed d of None \<Rightarrow> [] | Some c \<Rightarrow> c)"

text \<open>A segment with a given text, for the examples.\<close>

definition seg :: "string \<Rightarrow> segment" where
  "seg t = \<lparr>text_seg = t, timestamp = (0, 0)\<rparr>"

section \<open>Properties of the accumulator\<close>

lemma push_samples_append: "push_samples buf xs = buf @ xs"
  by (induction xs arbitrary: buf) simp_all

lemma process_frame:
  "process (frame xs) p =
     (if chunkSize p \<le> length (buffer p) + length xs
      then (p\<lparr>buffer := drop (chunkSize p) (buffer p @ xs)\<rparr>,
            [Audio (take (chunkSize p) (buffer p @ xs))], True)
      else (p\<lparr>buffer := buffer p @ xs\<rparr>, [], True))"
  by (simp add: process_def frame_def push_samples_append splice0_def)

text \<open>
  The inline copy behaves as the class of the worklet file: forgetting the two debug
  fields, a call posts the same messages and leaves the same buffer.
\<close>

lemma process_inline_simulates:
  "process_inline inputs p = (q, msgs, alive) \<Longrightarrow>
   process inputs (WhisperAudioProcessor.truncate p) =
     (WhisperAudioProcessor.truncate q, msgs, alive)"
  by (auto simp: process_inline_def process_def WhisperAudioProcessor.truncate_def
        splice0_def Let_def split: list.splits option.splits if_splits)

lemma length_concat_chunks:
  "\<forall>m\<in>set msgs. length (chunk_of m) = n \<Longrightarrow> length (concat (map chunk_of msgs)) = n * length msgs"
  by (induction msgs) simp_all

lemma length_concat_uniform:
  "\<forall>f\<in>set fs. length f = n \<Longrightarrow> length (concat fs) = length fs * n"
  by (induction fs) simp_all

lemma process_frame_step:
  assumes "chunkSize p = 1600" and "length (buffer p) < 1600" and "length f \<le> 1600"
  shows "\<exists>p' msgs. process (frame f) p = (p', msgs, True) \<and>
           chunkSize p' = 1600 \<and> length (buffer p') < 1600 \<and>
           p' = p\<lparr>buffer := buffer p'\<rparr> \<and>
           concat (map chunk_of msgs) @ buffer p' = buffer p @ f \<and>
           (\<forall>m\<in>set msgs. length (chunk_of m) = 1600)"
  using assms by (auto simp: process_frame)

lemma feed_frames_invariant:
  assumes "chunkSize p = 1600" and "length (buffer p) < 1600"
    and "\<forall>f\<in>set fs. length f \<le> 1600"
  shows "case feed (map frame fs) p of
           (q, msgs) \<Rightarrow>
             q = p\<lparr>buffer := buffer q\<rparr> \<and>
             concat (map chunk_of msgs) @ buffer q = buffer p @ concat fs \<and>
             (\<forall>m\<in>set msgs. length (chunk_of m) = 1600) \<and>
             length (buffer q) < 1600"
  using assms
proof (induction fs arbitrary: p)
  case Nil
  then show ?case by simp
next
  case (Cons f fs)
  have f: "length f \<le> 1600" using Cons.prems(3) by simp
  obtain p' msgs where step: "process (frame f) p = (p', msgs, True)"
    and p': "chunkSize p' = 1600" "length (buffer p') < 1600"
    "p' = p\<lparr>buffer := buffer p'\<rparr>"
    "concat (map chunk_of msgs) @ buffer p' = buffer p @ f"
    "\<forall>m\<in>set msgs. length (chunk_of m) = 1600"
    using process_frame_step[OF Cons.prems(1,2) f] by blast
  obtain q msgs' where rest: "feed (map frame fs) p' = (q, msgs')"
    by (cases "feed (map frame fs) p'")
  have IH: "q = p'\<lparr>buffer := buffer q\<rparr>"
    "concat (map chunk_of msgs') @ buffer q = buffer p' @ concat fs"
    "\<forall>m\<in>set msgs'. length (chunk_of m) = 1600"
    "length (buffer q) < 1600"
    using Cons.IH[OF p'(1,2)] Cons.prems(3) rest by auto
  have "q = p\<lparr>buffer := buffer q\<rparr>"
    using IH(1) p'(3) by (metis WhisperAudioProcessor.update_convs(1) WhisperAudioProcessor.surjective)
  moreover have "concat (map chunk_of (msgs @ msgs')) @ buffer q = buffer p @ concat (f # fs)"
    using IH(2) p'(4) by (metis append.assoc concat.simps(2) concat_append map_append)
  ultimately show ?case
    using step rest IH(3,4) p'(5) by auto
qed


text \<open>
  Claim C5. A call of \<^verbatim>\<open>process\<close> with a frame appends the frame's samples to the buffer;
  if the buffer then holds at least 1600 samples, exactly one chunk is posted, made of
  the 1600 oldest samples, which leave the buffer while the rest stays in order; if it
  holds fewer, nothing is posted and the buffer keeps everything. So no chunk is ever
  shorter than 1600 samples.
\<close>

theorem process_one_chunk_per_call:
  assumes "chunkSize p = 1600"
  shows "process (frame xs) p =
           (if 1600 \<le> length (buffer p @ xs)
            then (p\<lparr>buffer := drop 1600 (buffer p @ xs)\<rparr>,
                  [Audio (take 1600 (buffer p @ xs))], True)
            else (p\<lparr>buffer := buffer p @ xs\<rparr>, [], True))
         \<and> (1600 \<le> length (buffer p @ xs) \<longrightarrow>
              length (take 1600 (buffer p @ xs)) = 1600 \<and>
              take 1600 (buffer p @ xs) @ drop 1600 (buffer p @ xs) = buffer p @ xs)"
proof -
  define ys where "ys = buffer p @ xs"
  have "1600 \<le> length ys \<longrightarrow>
          length (take 1600 ys) = 1600 \<and> take 1600 ys @ drop 1600 ys = ys"
    by simp
  moreover have "process (frame xs) p =
           (if 1600 \<le> length ys
            then (p\<lparr>buffer := drop 1600 ys\<rparr>, [Audio (take 1600 ys)], True)
            else (p\<lparr>buffer := ys\<rparr>, [], True))"
    using assms by (simp add: process_frame ys_def)
  ultimately show ?thesis
    unfolding ys_def by blast
qed

text \<open>
  The buffer holds 1599 samples and a frame of two arrives: the chunk takes the first of
  the two and the second stays. With one sample buffered, nothing is posted.
\<close>

theorem process_one_chunk_per_call_witness:
  "chunkSize (constructor\<lparr>buffer := replicate 1599 (0::int)\<rparr>) = 1600 \<and>
   process (frame [1, 2]) (constructor\<lparr>buffer := replicate 1599 (0::int)\<rparr>) =
     (constructor\<lparr>buffer := [2]\<rparr>, [Audio (replicate 1599 0 @ [1])], True) \<and>
   process (frame [1, 2]) (constructor\<lparr>buffer := [0::int]\<rparr>) =
     (constructor\<lparr>buffer := [0, 1, 2]\<rparr>, [], True)"
  using process_one_chunk_per_call [of "constructor\<lparr>buffer := replicate 1599 (0::int)\<rparr>" "[1, 2]"]
    process_one_chunk_per_call [of "constructor\<lparr>buffer := [0::int]\<rparr>" "[1, 2]"]
  by (simp add: constructor_def)

text \<open>
  Claim C4, amended. For a stream of \<open>N\<close> frames of uniform length \<open>F\<close> with
  \<open>F \<le> 1600\<close>, fed to a fresh accumulator: the number of chunks posted is
  \<open>N * F div 1600\<close>, every chunk has exactly 1600 samples, the chunks followed by the
  buffer are the samples fed, in their order, and at most 1599 samples stay in the buffer.
\<close>

theorem uniform_stream_chunks:
  assumes "F \<le> 1600" and "length fs = N" and "\<forall>f\<in>set fs. length f = F"
  shows "case feed (map frame fs) constructor of
           (q, msgs) \<Rightarrow>
             length msgs = (N * F) div 1600 \<and>
             (\<forall>m\<in>set msgs. length (chunk_of m) = 1600) \<and>
             concat (map chunk_of msgs) @ buffer q = concat fs \<and>
             length (buffer q) \<le> 1599"
proof -
  obtain q msgs where run: "feed (map frame fs) (constructor :: 'a WhisperAudioProcessor) = (q, msgs)"
    by (cases "feed (map frame fs) (constructor :: 'a WhisperAudioProcessor)")
  have bound: "\<forall>f\<in>set fs. length f \<le> 1600"
    using assms(1,3) by simp
  have inv: "concat (map chunk_of msgs) @ buffer q = concat fs"
    "\<forall>m\<in>set msgs. length (chunk_of m) = 1600" "length (buffer q) < 1600"
    using feed_frames_invariant [of constructor fs] bound run
    by (simp_all add: constructor_def)
  have "length (concat (map chunk_of msgs)) + length (buffer q) = length (concat fs)"
    using inv(1) by (metis length_append)
  then have "1600 * length msgs + length (buffer q) = N * F"
    using length_concat_chunks [OF inv(2)] length_concat_uniform [OF assms(3)] assms(2)
    by simp
  then have "length msgs = (N * F) div 1600"
    using inv(3) by (metis div_mult_self2 div_less add.left_neutral add.commute zero_neq_numeral)
  then show ?thesis
    using run inv by simp
qed

text \<open>Three frames of 800 samples give one chunk and leave 800 samples.\<close>

theorem uniform_stream_chunks_witness:
  "(800::nat) \<le> 1600 \<and> length [replicate 800 (1::int), replicate 800 2, replicate 800 3] = 3 \<and>
   map length [replicate 800 (1::int), replicate 800 2, replicate 800 3] = [800, 800, 800] \<and>
   (case feed (map frame [replicate 800 (1::int), replicate 800 2, replicate 800 3]) constructor of
      (q, msgs) \<Rightarrow>
        length msgs = 1 \<and> (\<forall>m\<in>set msgs. length (chunk_of m) = 1600) \<and>
        concat (map chunk_of msgs) @ buffer q =
          concat [replicate 800 (1::int), replicate 800 2, replicate 800 3] \<and>
        length (buffer q) \<le> 1599)"
  using uniform_stream_chunks [of 800 "[replicate 800 (1::int), replicate 800 2, replicate 800 3]" 3]
  by simp

text \<open>
  Claim C4 as stated fails for frames longer than a chunk, since a call posts at most one
  chunk: one frame of 3200 samples gives one chunk, not two, and leaves 1600 samples.
\<close>

theorem oversized_frame_counterexample:
  "length (snd (feed [frame (replicate 3200 (0::int))] constructor)) = 1 \<and>
   (1 * 3200) div 1600 = (2::nat) \<and>
   length (buffer (fst (feed [frame (replicate 3200 (0::int))] constructor))) = 1600"
  by (simp add: process_frame constructor_def)

text \<open>
  Claim C9. The command \<^verbatim>\<open>clear\<close> empties the buffer and leaves the processor in
  service; frames fed after it whose lengths sum to exactly 1600 make it post exactly one
  chunk, which consists of those frames' samples and of nothing older, and the buffer is
  empty again.
\<close>

theorem clear_then_exactly_one_chunk:
  assumes "chunkSize p = 1600" and "length (concat fs) = 1600"
  shows "buffer (onmessage ''clear'' p) = [] \<and>
         chunkSize (onmessage ''clear'' p) = 1600 \<and>
         feed (map frame fs) (onmessage ''clear'' p) = (p\<lparr>buffer := []\<rparr>, [Audio (concat fs)])"
proof -
  let ?p = "p\<lparr>buffer := []\<rparr>"
  obtain q msgs where run: "feed (map frame fs) ?p = (q, msgs)"
    by (cases "feed (map frame fs) ?p")
  have bound: "\<forall>f\<in>set fs. length f \<le> 1600"
  proof
    fix f assume "f \<in> set fs"
    then have "length f \<le> length (concat fs)"
      by (induction fs) auto
    then show "length f \<le> 1600" using assms(2) by simp
  qed
  have inv: "q = ?p\<lparr>buffer := buffer q\<rparr>" "concat (map chunk_of msgs) @ buffer q = concat fs"
    "\<forall>m\<in>set msgs. length (chunk_of m) = 1600" "length (buffer q) < 1600"
    using feed_frames_invariant [of ?p fs] bound run assms(1) by simp_all
  have "length (concat (map chunk_of msgs)) + length (buffer q) = 1600"
    using inv(2) assms(2) by (metis length_append)
  then have eq: "1600 * length msgs + length (buffer q) = 1600"
    using length_concat_chunks [OF inv(3)] by simp
  have one: "length msgs = 1"
  proof (cases "length msgs")
    case 0
    then show ?thesis using eq inv(4) by simp
  next
    case (Suc k)
    then show ?thesis using eq by simp
  qed
  then have empty: "buffer q = []" using eq by simp
  obtain m where m: "msgs = [m]"
    using one by (cases msgs) simp_all
  have "chunk_of m = concat fs"
    using inv(2) m empty by simp
  then have "m = Audio (concat fs)"
    by (cases m) simp
  moreover have "q = ?p"
    using inv(1) empty by simp
  ultimately show ?thesis
    using run m assms(1) by (simp add: onmessage_def)
qed

text \<open>Three stale samples are dropped by the command; frames of 1000 and 600 follow.\<close>

theorem clear_then_exactly_one_chunk_witness:
  "chunkSize (constructor\<lparr>buffer := [7, 8, 9 :: int]\<rparr>) = 1600 \<and>
   length (concat [replicate 1000 (1::int), replicate 600 2]) = 1600 \<and>
   feed (map frame [replicate 1000 (1::int), replicate 600 2])
        (onmessage ''clear'' (constructor\<lparr>buffer := [7, 8, 9 :: int]\<rparr>)) =
     (constructor, [Audio (replicate 1000 1 @ replicate 600 2)])"
  using clear_then_exactly_one_chunk [of "constructor\<lparr>buffer := [7, 8, 9 :: int]\<rparr>"
      "[replicate 1000 (1::int), replicate 600 2]"]
  by (simp add: constructor_def)

section \<open>Properties of the session client\<close>

lemma sorted_wrt_snoc_last:
  "sorted_wrt P (xs @ [y]) \<Longrightarrow> x \<in> set xs \<Longrightarrow> P x y"
  by (simp add: sorted_wrt_append)

lemma join_append:
  "join sep (xs @ zs) =
     (if xs = [] then join sep zs
      else if zs = [] then join sep xs
      else join sep xs @ sep @ join sep zs)"
  by (induction sep xs rule: join.induct) (auto simp: neq_Nil_conv)

lemma join_prefix:
  assumes "prefix xs ys"
  shows "prefix (join sep (map f xs)) (join sep (map f ys))"
proof -
  obtain zs where "ys = xs @ zs"
    using assms by (auto simp: prefix_def)
  then show ?thesis
    by (simp add: join_append)
qed

lemma processSession_ok:
  assumes "truthy (sessionId s)"
  shows "processSession (Response True (Inr d)) s =
           s\<lparr>committedSegments := (if committed_of d = [] then committedSegments s else committed_of d),
             uncommittedSegments := (case uncommitted d of None \<Rightarrow> [] | Some u \<Rightarrow> u),
             isProcessing := False,
             requests := requests s @ [ProcessRequest (the (sessionId s))]\<rparr>"
  using assms
  by (cases "sessionId s")
     (auto simp: processSession_def truthy_def send_def committed_of_def Let_def
           split: option.splits)

lemma polls_sessionId: "sessionId (polls ds s) = sessionId s"
proof (induction ds arbitrary: s)
  case Nil
  show ?case by simp
next
  case (Cons d ds)
  have "sessionId (processSession (Response True (Inr d)) s) = sessionId s"
    by (auto simp: processSession_def send_def Let_def split: option.splits)
  then show ?case using Cons.IH by simp
qed

lemma polls_committed:
  assumes "truthy (sessionId s)"
  shows "committedSegments (polls ds s) =
           last (committedSegments s # filter (\<lambda>c. c \<noteq> []) (map committed_of ds))"
  using assms
proof (induction ds arbitrary: s)
  case Nil
  show ?case by simp
next
  case (Cons d ds)
  let ?s = "processSession (Response True (Inr d)) s"
  have "truthy (sessionId ?s)"
    using Cons.prems by (simp add: processSession_ok)
  then have "committedSegments (polls ds ?s) =
      last (committedSegments ?s # filter (\<lambda>c. c \<noteq> []) (map committed_of ds))"
    by (rule Cons.IH)
  then show ?case
    using Cons.prems by (simp add: processSession_ok)
qed

lemma polls_append: "polls (ds @ es) s = polls es (polls ds s)"
  by (induction ds arbitrary: s) simp_all

text \<open>
  Claim C1. A successful poll (a session is set, the response is 2xx and its body parses)
  replaces the committed list by the response's list only when that list is present and
  not empty, and keeps the stored list otherwise; it replaces the uncommitted list by the
  response's list, or by the empty list when the field is absent.
\<close>

theorem processSession_replaces_lists:
  assumes "truthy (sessionId s)"
  shows "committedSegments (processSession (Response True (Inr d)) s) =
           (case committed d of
              None \<Rightarrow> committedSegments s
            | Some c \<Rightarrow> if c = [] then committedSegments s else c) \<and>
         uncommittedSegments (processSession (Response True (Inr d)) s) =
           (case uncommitted d of None \<Rightarrow> [] | Some u \<Rightarrow> u)"
  using assms
  by (simp add: processSession_ok committed_of_def split: option.splits)

text \<open>
  The responses \<open>{committed: [a], uncommitted: [b]}\<close> and then
  \<open>{committed: [], uncommitted: [c]}\<close>: the committed text stays \<open>a\<close>, the
  uncommitted list becomes \<open>[c]\<close>.
\<close>

theorem processSession_replaces_lists_witness:
  "truthy (sessionId (initial\<lparr>sessionId := Some ''s1''\<rparr>)) \<and>
   getTranscriptionText
     (polls [\<lparr>committed = Some [seg ''a''], uncommitted = Some [seg ''b'']\<rparr>,
             \<lparr>committed = Some [], uncommitted = Some [seg ''c'']\<rparr>]
        (initial\<lparr>sessionId := Some ''s1''\<rparr>)) = ''a'' \<and>
   uncommittedSegments
     (polls [\<lparr>committed = Some [seg ''a''], uncommitted = Some [seg ''b'']\<rparr>,
             \<lparr>committed = Some [], uncommitted = Some [seg ''c'']\<rparr>]
        (initial\<lparr>sessionId := Some ''s1''\<rparr>)) = [seg ''c'']"
  using processSession_replaces_lists
      [of "initial\<lparr>sessionId := Some ''s1''\<rparr>"
          "\<lparr>committed = Some [seg ''a''], uncommitted = Some [seg ''b'']\<rparr>"]
    processSession_replaces_lists
      [of "processSession (Response True
              (Inr \<lparr>committed = Some [seg ''a''], uncommitted = Some [seg ''b'']\<rparr>))
              (initial\<lparr>sessionId := Some ''s1''\<rparr>)"
          "\<lparr>committed = Some [], uncommitted = Some [seg ''c'']\<rparr>"]
  by (simp add: initial_def truthy_def getTranscriptionText_def processSession_ok committed_of_def seg_def)

text \<open>
  Claim C2, amended. Within one session, take a sequence of successful polls in which every
  committed list that is not empty extends the one before it, the first extending what the
  client holds. Then the committed text before any poll of the sequence is a prefix of the
  committed text after it: the text never shrinks.
\<close>

theorem committed_text_grows:
  assumes "truthy (sessionId s)"
    and "sorted_wrt prefix
           (committedSegments s # filter (\<lambda>c. c \<noteq> []) (map committed_of (ds @ [d])))"
  shows "prefix (getTranscriptionText (polls ds s)) (getTranscriptionText (polls (ds @ [d]) s))"
proof -
  let ?cs = "committedSegments s # filter (\<lambda>c. c \<noteq> []) (map committed_of ds)"
  have before: "committedSegments (polls ds s) = last ?cs"
    using assms(1) by (rule polls_committed)
  have after: "committedSegments (polls (ds @ [d]) s) =
      (if committed_of d = [] then last ?cs else committed_of d)"
    using polls_committed [OF assms(1), of "ds @ [d]"] by simp
  have "prefix (last ?cs) (committed_of d)" if "committed_of d \<noteq> []"
  proof -
    have "sorted_wrt prefix (?cs @ [committed_of d])"
      using assms(2) that by simp
    moreover have "last ?cs \<in> set ?cs"
      by (rule last_in_set) simp
    ultimately show ?thesis
      by (rule sorted_wrt_snoc_last)
  qed
  then have "prefix (committedSegments (polls ds s)) (committedSegments (polls (ds @ [d]) s))"
    using before after by simp
  then show ?thesis
    unfolding getTranscriptionText_def by (rule join_prefix)
qed

text \<open>The committed lists \<open>[a]\<close> and then \<open>[a, d]\<close> give the text \<open>a d\<close>.\<close>

theorem committed_text_grows_witness:
  "truthy (sessionId (initial\<lparr>sessionId := Some ''s1''\<rparr>)) \<and>
   sorted_wrt prefix
     (committedSegments (initial\<lparr>sessionId := Some ''s1''\<rparr>) #
      filter (\<lambda>c. c \<noteq> [])
        (map committed_of
           ([\<lparr>committed = Some [seg ''a''], uncommitted = None\<rparr>] @
            [\<lparr>committed = Some [seg ''a'', seg ''d''], uncommitted = None\<rparr>]))) \<and>
   prefix
     (getTranscriptionText
        (polls [\<lparr>committed = Some [seg ''a''], uncommitted = None\<rparr>]
           (initial\<lparr>sessionId := Some ''s1''\<rparr>)))
     (getTranscriptionText
        (polls ([\<lparr>committed = Some [seg ''a''], uncommitted = None\<rparr>] @
                [\<lparr>committed = Some [seg ''a'', seg ''d''], uncommitted = None\<rparr>])
           (initial\<lparr>sessionId := Some ''s1''\<rparr>))) \<and>
   getTranscriptionText
     (polls ([\<lparr>committed = Some [seg ''a''], uncommitted = None\<rparr>] @
             [\<lparr>committed = Some [seg ''a'', seg ''d''], uncommitted = None\<rparr>])
        (initial\<lparr>sessionId := Some ''s1''\<rparr>)) = ''a d''"
proof -
  let ?s = "initial\<lparr>sessionId := Some ''s1''\<rparr>"
  let ?ds = "[\<lparr>committed = Some [seg ''a''], uncommitted = None\<rparr>]"
  let ?d = "\<lparr>committed = Some [seg ''a'', seg ''d''], uncommitted = None\<rparr>"
  have h1: "truthy (sessionId ?s)"
    by (simp add: truthy_def)
  have h2: "sorted_wrt prefix
      (committedSegments ?s # filter (\<lambda>c. c \<noteq> []) (map committed_of (?ds @ [?d])))"
    by (simp add: committed_of_def initial_def)
  have "getTranscriptionText (polls (?ds @ [?d]) ?s) = ''a d''"
    using h1 by (simp add: getTranscriptionText_def processSession_ok committed_of_def seg_def)
  then show ?thesis
    using h1 h2 committed_text_grows [OF h1 h2] by blast
qed

text \<open>
  Claim C2 as stated fails: the client takes any committed list that is not empty, so the
  responses \<open>[a, d]\<close> and then \<open>[a]\<close> take the text from \<open>a d\<close> back to \<open>a\<close>.
\<close>

theorem committed_text_shrinks_counterexample:
  "getTranscriptionText
     (polls [\<lparr>committed = Some [seg ''a'', seg ''d''], uncommitted = None\<rparr>]
        (initial\<lparr>sessionId := Some ''s1''\<rparr>)) = ''a d'' \<and>
   getTranscriptionText
     (polls [\<lparr>committed = Some [seg ''a'', seg ''d''], uncommitted = None\<rparr>,
             \<lparr>committed = Some [seg ''a''], uncommitted = None\<rparr>]
        (initial\<lparr>sessionId := Some ''s1''\<rparr>)) = ''a''"
  by (simp add: initial_def truthy_def getTranscriptionText_def processSession_ok committed_of_def seg_def)


lemma trim_Nil_iff: "trim t = [] \<longleftrightarrow> (\<forall>c\<in>set t. is_whitespace c)"
proof
  assume "trim t = []"
  then have all: "\<forall>x\<in>set (dropWhile is_whitespace t). is_whitespace x"
    by (simp add: trim_def)
  have "dropWhile is_whitespace t = []"
  proof (rule ccontr)
    assume ne: "dropWhile is_whitespace t \<noteq> []"
    then have "\<not> is_whitespace (hd (dropWhile is_whitespace t))"
      by (rule hd_dropWhile)
    moreover have "hd (dropWhile is_whitespace t) \<in> set (dropWhile is_whitespace t)"
      using ne by simp
    ultimately show False
      using all by blast
  qed
  then show "\<forall>c\<in>set t. is_whitespace c"
    by simp
next
  assume "\<forall>c\<in>set t. is_whitespace c"
  then have eq: "dropWhile is_whitespace t = []"
    by simp
  show "trim t = []"
    unfolding trim_def eq by simp
qed


lemma processSession_keeps:
  "sessionId (processSession r s) = sessionId s"
  "shouldSave (processSession r s) = shouldSave s"
  "documents (processSession r s) = documents s"
  "language (processSession r s) = language s"
  "isRecording (processSession r s) = isRecording s"
  "intervalRef (processSession r s) = intervalRef s"
  by (auto simp: processSession_def send_def Let_def
           split: option.splits fetch_result.splits sum.splits)

lemma endSession_response:
  "sessionId s = Some sid \<Longrightarrow> sid \<noteq> [] \<Longrightarrow>
   endSession pr (Response ok body) s =
     (send (EndRequest sid) (processSession pr s))\<lparr>sessionId := None\<rparr>"
  by (simp add: endSession_def)

lemma endSession_rejected:
  "sessionId s = Some sid \<Longrightarrow> sid \<noteq> [] \<Longrightarrow>
   endSession pr (Rejected msg) s =
     (send (EndRequest sid) (processSession pr s))\<lparr>error := Some msg\<rparr>"
  by (simp add: endSession_def)

lemma processSession_requests:
  "sessionId s = Some sid \<Longrightarrow> sid \<noteq> [] \<Longrightarrow>
   requests (processSession r s) = requests s @ [ProcessRequest sid]"
  by (auto simp: processSession_def send_def Let_def
           split: option.splits fetch_result.splits sum.splits)





text \<open>
  Claim C6, amended. With a session set, \<^verbatim>\<open>endSession\<close> sends a last process request and
  then the end request, and the lists are those of that last poll. If the end request is
  answered, whatever its status, the session identifier is cleared and the end call adds
  no error; if it is rejected, the message is surfaced and the session identifier stays.
\<close>

theorem endSession_clears_unless_rejected:
  assumes "sessionId s = Some sid" and "sid \<noteq> []"
  shows "requests (endSession pr er s) = requests s @ [ProcessRequest sid, EndRequest sid] \<and>
         committedSegments (endSession pr er s) = committedSegments (processSession pr s) \<and>
         uncommittedSegments (endSession pr er s) = uncommittedSegments (processSession pr s) \<and>
         (case er of
            Response ok body \<Rightarrow>
              sessionId (endSession pr er s) = None \<and>
              error (endSession pr er s) = error (processSession pr s)
          | Rejected msg \<Rightarrow>
              sessionId (endSession pr er s) = Some sid \<and>
              error (endSession pr er s) = Some msg)"
proof (cases er)
  case (Rejected msg)
  show ?thesis
    unfolding Rejected endSession_rejected [OF assms]
    using assms by (simp add: send_def processSession_requests processSession_keeps)
next
  case (Response ok body)
  show ?thesis
    unfolding Response endSession_response [OF assms]
    using assms by (simp add: send_def processSession_requests)
qed

text \<open>A non-2xx answer to the end request: the session is cleared and no error is set.\<close>

theorem endSession_clears_unless_rejected_witness:
  "sessionId (initial\<lparr>sessionId := Some ''s1''\<rparr>) = Some ''s1'' \<and> ''s1'' \<noteq> [] \<and>
   requests (endSession (Response True (Inr \<lparr>committed = Some [seg ''a''], uncommitted = None\<rparr>))
               (Response False (Inl ''no body'')) (initial\<lparr>sessionId := Some ''s1''\<rparr>)) =
     [ProcessRequest ''s1'', EndRequest ''s1''] \<and>
   sessionId (endSession (Response True (Inr \<lparr>committed = Some [seg ''a''], uncommitted = None\<rparr>))
               (Response False (Inl ''no body'')) (initial\<lparr>sessionId := Some ''s1''\<rparr>)) = None \<and>
   error (endSession (Response True (Inr \<lparr>committed = Some [seg ''a''], uncommitted = None\<rparr>))
               (Response False (Inl ''no body'')) (initial\<lparr>sessionId := Some ''s1''\<rparr>)) = None"
proof -
  let ?s = "initial\<lparr>sessionId := Some ''s1''\<rparr>"
  have h1: "sessionId ?s = Some ''s1''" by simp
  have h2: "''s1'' \<noteq> []" by simp
  have "requests ?s = []" "error (processSession (Response True (Inr \<lparr>committed = Some [seg ''a''], uncommitted = None\<rparr>)) ?s) = None"
    by (simp_all add: initial_def processSession_def send_def)
  then show ?thesis
    using endSession_clears_unless_rejected [OF h1 h2,
        of "Response True (Inr \<lparr>committed = Some [seg ''a''], uncommitted = None\<rparr>)"
           "Response False (Inl ''no body'')"]
    by simp
qed

text \<open>
  Claim C6 as stated fails: when the end request is rejected, the message is surfaced but
  the session identifier is still set afterwards.
\<close>

theorem endSession_rejected_counterexample:
  "sessionId (endSession (Response True (Inr \<lparr>committed = Some [seg ''a''], uncommitted = None\<rparr>))
               (Rejected ''Failed to fetch'') (initial\<lparr>sessionId := Some ''s1''\<rparr>)) = Some ''s1'' \<and>
   error (endSession (Response True (Inr \<lparr>committed = Some [seg ''a''], uncommitted = None\<rparr>))
               (Rejected ''Failed to fetch'') (initial\<lparr>sessionId := Some ''s1''\<rparr>)) =
     Some ''Failed to fetch''"
  by (simp add: endSession_def processSession_def send_def initial_def)


lemma createSession_fails:
  assumes "r = Rejected msg \<or> r = Response False body \<and> msg = ''Failed to create session''"
  shows "createSession r s =
           (s\<lparr>error := Some msg, requests := requests s @ [CreateRequest (language s)]\<rparr>, None)"
  using assms by (auto simp: createSession_def send_def)

text \<open>
  Claim C7, amended. When the create request is rejected or answered with a non-2xx status,
  the failure message is surfaced and nothing else but the request log changes: the
  stored session identifier is left as it was, so a failed create never stores one and an
  unset identifier stays unset. \<^verbatim>\<open>handleStartRecording\<close> then returns before starting the
  capture: the recording flag is untouched, and a polling timer starts only if the client
  was recording with a session already.
\<close>

theorem createSession_failure_keeps_identifier:
  assumes "r = Rejected msg \<or> r = Response False body \<and> msg = ''Failed to create session''"
  shows "createSession r s =
           (s\<lparr>error := Some msg, requests := requests s @ [CreateRequest (language s)]\<rparr>, None) \<and>
         sessionId (fst (createSession r s)) = sessionId s \<and>
         error (fst (createSession r s)) = Some msg \<and>
         sessionId (handleStartRecording r failure s) = sessionId s \<and>
         error (handleStartRecording r failure s) = Some msg \<and>
         isRecording (handleStartRecording r failure s) = isRecording s \<and>
         pollingEffect timer (handleStartRecording r failure s) =
           (if isRecording s \<and> truthy (sessionId s)
            then (handleStartRecording r failure s)\<lparr>intervalRef := Some timer\<rparr>
            else handleStartRecording r failure s)"
proof -
  have start: "handleStartRecording r failure s =
      s\<lparr>error := Some msg, committedSegments := [], uncommittedSegments := [],
        shouldSave := False, intervalRef := None,
        requests := requests s @ [CreateRequest (language s)]\<rparr>"
    by (simp add: handleStartRecording_def createSession_fails [OF assms(1)] truthy_def)
  show ?thesis
    unfolding start createSession_fails [OF assms(1)]
    by (simp add: pollingEffect_def)
qed

text \<open>
  A rejected request and a non-2xx answer, from the initial state: the identifier stays
  unset, the client is not recording and no timer starts.
\<close>

theorem createSession_failure_keeps_identifier_witness:
  "createSession (Rejected ''Failed to fetch'') initial =
     (initial\<lparr>error := Some ''Failed to fetch'', requests := [CreateRequest ''fr'']\<rparr>, None) \<and>
   createSession (Response False (Inl ''Unexpected end of JSON input'')) initial =
     (initial\<lparr>error := Some ''Failed to create session'', requests := [CreateRequest ''fr'']\<rparr>, None) \<and>
   sessionId (handleStartRecording (Rejected ''Failed to fetch'') None initial) = None \<and>
   isRecording (handleStartRecording (Rejected ''Failed to fetch'') None initial) = False \<and>
   pollingEffect 0 (handleStartRecording (Rejected ''Failed to fetch'') None initial) =
     handleStartRecording (Rejected ''Failed to fetch'') None initial"
proof -
  have h: "sessionId initial = None" "requests initial = []" "language initial = ''fr''"
    "isRecording initial = False"
    by (simp_all add: initial_def)
  show ?thesis
    using h
      createSession_failure_keeps_identifier
        [where r = "Rejected ''Failed to fetch''" and msg = "''Failed to fetch''"
           and body = "Inl ''Unexpected end of JSON input''" and s = initial
           and failure = None and timer = 0]
      createSession_failure_keeps_identifier
        [where r = "Response False (Inl ''Unexpected end of JSON input'')"
           and msg = "''Failed to create session''"
           and body = "Inl ''Unexpected end of JSON input''" and s = initial
           and failure = None and timer = 0]
    by simp
qed

text \<open>
  Claim C7 as stated fails where an identifier is already stored. A session is created but
  the microphone is refused, so the client is not recording and shows the start button
  with the identifier stored; the next start fails at the create request, and the
  identifier is still set afterwards.
\<close>

theorem createSession_failure_stale_identifier_counterexample:
  "isRecording
     (handleStartRecording (Response True (Inr \<lparr>session_id = Some ''s1''\<rparr>))
        (Some ''Permission denied'') initial) = False \<and>
   sessionId
     (handleStartRecording (Response True (Inr \<lparr>session_id = Some ''s1''\<rparr>))
        (Some ''Permission denied'') initial) = Some ''s1'' \<and>
   sessionId
     (fst (createSession (Rejected ''Failed to fetch'')
        (handleStartRecording (Response True (Inr \<lparr>session_id = Some ''s1''\<rparr>))
           (Some ''Permission denied'') initial))) = Some ''s1'' \<and>
   sessionId
     (handleStartRecording (Rejected ''Failed to fetch'') None
        (handleStartRecording (Response True (Inr \<lparr>session_id = Some ''s1''\<rparr>))
           (Some ''Permission denied'') initial)) = Some ''s1''"
  by (simp add: handleStartRecording_def createSession_def startRecording_def send_def
        truthy_def initial_def)

text \<open>
  Claim C8. When sending a chunk fails (the request is rejected or answered with a non-2xx
  status), the message is surfaced and the client state is otherwise unchanged: the
  session identifier, both segment lists and the recording flag are as before.
\<close>

theorem sendChunk_failure_only_sets_error:
  assumes "r = Rejected msg \<or> r = Response False body \<and> msg = ''Failed to send audio chunk''"
  shows "sendChunk newSessionId audio r s =
           s\<lparr>error := Some msg,
             requests := requests s @ [AddChunkRequest newSessionId audio]\<rparr>"
  using assms by (auto simp: sendChunk_def send_def)

text \<open>Both kinds of failure during a recording with one committed segment.\<close>

theorem sendChunk_failure_only_sets_error_witness:
  "sendChunk ''s1'' ''AAAAAA=='' (Response False (Inl ''no body''))
      (initial\<lparr>sessionId := Some ''s1'', committedSegments := [seg ''a''], isRecording := True\<rparr>) =
     initial\<lparr>sessionId := Some ''s1'', committedSegments := [seg ''a''], isRecording := True,
       error := Some ''Failed to send audio chunk'',
       requests := [AddChunkRequest ''s1'' ''AAAAAA=='']\<rparr> \<and>
   sendChunk ''s1'' ''AAAAAA=='' (Rejected ''Failed to fetch'')
      (initial\<lparr>sessionId := Some ''s1'', committedSegments := [seg ''a''], isRecording := True\<rparr>) =
     initial\<lparr>sessionId := Some ''s1'', committedSegments := [seg ''a''], isRecording := True,
       error := Some ''Failed to fetch'',
       requests := [AddChunkRequest ''s1'' ''AAAAAA=='']\<rparr>"
  using
    sendChunk_failure_only_sets_error
      [where r = "Response False (Inl ''no body'')" and body = "Inl ''no body''"
         and msg = "''Failed to send audio chunk''" and newSessionId = "''s1''"
         and audio = "''AAAAAA==''"
         and s = "initial\<lparr>sessionId := Some ''s1'', committedSegments := [seg ''a''], isRecording := True\<rparr>"]
    sendChunk_failure_only_sets_error
      [where r = "Rejected ''Failed to fetch''" and body = "Inl ''no body''"
         and msg = "''Failed to fetch''" and newSessionId = "''s1''"
         and audio = "''AAAAAA==''"
         and s = "initial\<lparr>sessionId := Some ''s1'', committedSegments := [seg ''a''], isRecording := True\<rparr>"]
  by (simp add: initial_def)

text \<open>
  Claim C10. When the save is due and the joined committed text is not empty but made of
  white space only, nothing is saved and no error is set; the flag is cleared all the
  same, so the effect saves nothing later either.
\<close>

theorem whitespace_only_text_not_saved:
  assumes "shouldSave s" and "\<not> truthy (sessionId s)"
    and "getTranscriptionText s \<noteq> []"
    and "\<forall>c\<in>set (getTranscriptionText s). is_whitespace c"
  shows "saveEffect now s = (s\<lparr>shouldSave := False\<rparr>, None) \<and>
         documents (fst (saveEffect now s)) = documents s \<and>
         \<not> shouldSave (fst (saveEffect now s)) \<and>
         saveEffect now' (fst (saveEffect now s)) = (fst (saveEffect now s), None)"
proof -
  have "trim (getTranscriptionText s) = []"
    using assms(4) by (simp add: trim_Nil_iff)
  then have "saveTranscription now s = (s\<lparr>shouldSave := False\<rparr>, None)"
    by (simp add: saveTranscription_def getTranscriptionText_def)
  then have "saveEffect now s = (s\<lparr>shouldSave := False\<rparr>, None)"
    using assms(1,2) by (simp add: saveEffect_def)
  then show ?thesis
    by (simp add: saveEffect_def)
qed

text \<open>Two committed segments of one space each: the text is three spaces.\<close>

theorem whitespace_only_text_not_saved_witness:
  "shouldSave (initial\<lparr>committedSegments := [seg '' '', seg '' ''], shouldSave := True\<rparr>) \<and>
   \<not> truthy (sessionId (initial\<lparr>committedSegments := [seg '' '', seg '' ''], shouldSave := True\<rparr>)) \<and>
   getTranscriptionText (initial\<lparr>committedSegments := [seg '' '', seg '' ''], shouldSave := True\<rparr>) = ''   '' \<and>
   list_all is_whitespace ''   '' \<and>
   saveEffect ''2025-01-01T00:00:00.000Z''
       (initial\<lparr>committedSegments := [seg '' '', seg '' ''], shouldSave := True\<rparr>) =
     (initial\<lparr>committedSegments := [seg '' '', seg '' '']\<rparr>, None)"
proof -
  let ?s = "initial\<lparr>committedSegments := [seg '' '', seg '' ''], shouldSave := True\<rparr>"
  have h1: "shouldSave ?s" by simp
  have h2: "\<not> truthy (sessionId ?s)" by (simp add: initial_def truthy_def)
  have joined: "getTranscriptionText ?s = ''   ''"
    by (simp add: getTranscriptionText_def seg_def)
  have h3: "getTranscriptionText ?s \<noteq> []"
    unfolding joined by simp
  have ws: "list_all is_whitespace ''   ''"
    by (simp add: is_whitespace_def)
  have h4: "\<forall>c\<in>set (getTranscriptionText ?s). is_whitespace c"
    unfolding joined using ws by (simp add: list_all_iff)
  show ?thesis
    using h1 h2 joined ws
      whitespace_only_text_not_saved [OF h1 h2 h3 h4, of "''2025-01-01T00:00:00.000Z''"]
    by (simp add: initial_def)
qed

end
